theory Spec2Isabelle
  imports Main "HOL-Library.Sublist"
begin

text \<open>
  A shallow embedding of the note server: an HTTP backend with a route that sends an
  uploaded audio file to a transcription provider and a route that sends a transcript to
  a completion provider for a summary, both behind the session check of an identity
  provider. The repository holds the program in three stages. The latest, the
  \<^verbatim>\<open>main\<close> package printed after the module file in \<^verbatim>\<open>src/go.mod\<close>, has both routes;
  \<^verbatim>\<open>src/unnamed/part_001\<close> has the authenticated transcribe route only, and
  \<^verbatim>\<open>src/main.go\<close> the same route without authentication. Unsuffixed names belong to the
  latest stage, the names of the earlier ones carry the name of their file.

  The handlers are functions from the request, the response writer and the state of the
  world to an outcome, the writer and the world afterwards; what the operating system and
  the providers answer is a parameter.
\<close>

section \<open>Strings\<close>

text \<open>
  A Go \<^verbatim>\<open>string\<close> is a sequence of bytes; it is modelled as \<^typ>\<open>string\<close>, a list of
  8-bit characters. The bytes the program names are written with their codes.
\<close>

definition backslash :: char where "backslash = CHR 0x5C"
definition quote :: char where "quote = CHR 0x22"
definition newline :: char where "newline = CHR 0x0A"
definition tab :: char where "tab = CHR 0x09"
definition carriage_return :: char where "carriage_return = CHR 0x0D"
definition form_feed :: char where "form_feed = CHR 0x0C"

text \<open>
  \<^verbatim>\<open>strings.ReplaceAll(s, old, new)\<close> of the Go library: every non-overlapping instance of
  \<open>old\<close>, scanning from the left, is replaced by \<open>new\<close>. For an empty \<open>old\<close> Go
  inserts \<open>new\<close> before every UTF-8 sequence and at the end; the model does so before
  every byte, which is the same on ASCII text (the program only passes one-byte patterns).
\<close>

function ReplaceAll :: "string \<Rightarrow> string \<Rightarrow> string \<Rightarrow> string" where
  "ReplaceAll [] old new = (if old = [] then new else [])"
| "ReplaceAll (c # cs) old new =
     (if old = [] then new @ c # ReplaceAll cs old new
      else if prefix old (c # cs) then new @ ReplaceAll (drop (length old) (c # cs)) old new
      else c # ReplaceAll cs old new)"
  by pat_completeness auto
termination
  by (relation "measure (\<lambda>(s, old, new). length s)") auto

text \<open>
  The regular expression of \<^verbatim>\<open>sanitizeInput\<close>, \<^verbatim>\<open>[\x00-\x08\x0B\x0C\x0E-\x1F]\<close>: a class of
  one-byte code points. Go's regexp reads the input as UTF-8; every byte below 0x80 is a
  code point of its own wherever it stands, and no byte from 0x80 on is part of a match,
  so the class is a predicate on bytes.
\<close>

definition re_match :: "char \<Rightarrow> bool" where
  "re_match c =
     (let n = (of_char c :: nat)
      in n \<le> 0x08 \<or> n = 0x0B \<or> n = 0x0C \<or> (0x0E \<le> n \<and> n \<le> 0x1F))"

text \<open>
  \<^verbatim>\<open>re.ReplaceAllString(input, "")\<close>: every match of the class is replaced by the empty
  string, that is, the matching bytes are deleted.
\<close>

definition re_ReplaceAllString_empty :: "string \<Rightarrow> string" where
  "re_ReplaceAllString_empty input = filter (\<lambda>c. \<not> re_match c) input"

section \<open>The sanitizer\<close>

definition sanitizeInput :: "string \<Rightarrow> string" where
  "sanitizeInput input0 =
     (let input1 = ReplaceAll input0 [backslash] [backslash, backslash];
          input2 = ReplaceAll input1 [newline] [backslash, CHR ''n''];
          input3 = ReplaceAll input2 [tab] [backslash, CHR ''t''];
          input4 = ReplaceAll input3 [carriage_return] [backslash, CHR ''r''];
          input5 = ReplaceAll input4 [form_feed] [backslash, CHR ''f'']
      in re_ReplaceAllString_empty input5)"

text \<open>
  The content of a JSON string literal (RFC 8259, section 7), the text between the two
  double quotes, read byte by byte: an unescaped byte is neither a double quote, nor a
  backslash, nor a control character below 0x20; a backslash starts an escape, one of
  \<^verbatim>\<open>\" \\ \/ \b \f \n \r \t\<close> or \<^verbatim>\<open>\u\<close> with four hexadecimal digits. The scanner state
  says where in an escape the reader is; the content is well formed when the scan ends
  outside an escape.
\<close>

datatype json_state = Plain | Escape | Hex nat

definition is_hex :: "char \<Rightarrow> bool" where
  "is_hex c = (c \<in> set ''0123456789abcdefABCDEF'')"

definition is_control :: "char \<Rightarrow> bool" where
  "is_control c = ((of_char c :: nat) < 0x20)"

fun json_string_content :: "json_state \<Rightarrow> string \<Rightarrow> bool" where
  "json_string_content st [] = (st = Plain)"
| "json_string_content Plain (c # cs) =
     (if c = backslash then json_string_content Escape cs
      else if c = quote \<or> is_control c then False
      else json_string_content Plain cs)"
| "json_string_content Escape (c # cs) =
     (if c \<in> set [quote, backslash, CHR ''/'', CHR ''b'', CHR ''f'', CHR ''n'', CHR ''r'', CHR ''t'']
      then json_string_content Plain cs
      else if c = CHR ''u'' then json_string_content (Hex 4) cs
      else False)"
| "json_string_content (Hex 0) (c # cs) = False"
| "json_string_content (Hex (Suc 0)) (c # cs) = (is_hex c \<and> json_string_content Plain cs)"
| "json_string_content (Hex (Suc (Suc n))) (c # cs) =
     (is_hex c \<and> json_string_content (Hex (Suc n)) cs)"

text \<open>
  What \<^verbatim>\<open>sanitizeInput\<close> makes of one byte; \<open>sanitizeInput_bytewise\<close> below proves that
  the five replacements and the deletion, run over the whole string one after the other,
  come to this byte by byte.
\<close>

definition escape_byte :: "char \<Rightarrow> string" where
  "escape_byte c =
     (if c = backslash then [backslash, backslash]
      else if c = newline then [backslash, CHR ''n'']
      else if c = tab then [backslash, CHR ''t'']
      else if c = carriage_return then [backslash, CHR ''r'']
      else if c = form_feed then [backslash, CHR ''f'']
      else if re_match c then [] else [c])"

text \<open>The bytes that \<^verbatim>\<open>sanitizeInput\<close> replaces by a two-byte escape sequence.\<close>

definition escaped :: "char \<Rightarrow> bool" where
  "escaped c =
     (c = backslash \<or> c = newline \<or> c = tab \<or> c = carriage_return \<or> c = form_feed)"

section \<open>Errors, files and the outside world\<close>

text \<open>
  A Go \<^verbatim>\<open>error\<close> value is used by the program only through its message
  (\<^verbatim>\<open>err.Error()\<close>) and the test against \<^verbatim>\<open>nil\<close>; a result with an error is a sum,
  \<open>Inl\<close> the error.
\<close>

datatype error = errorString string

fun Error_text :: "error \<Rightarrow> string" where
  "Error_text (errorString m) = m"

text \<open>\<^verbatim>\<open>*os.File\<close>: an open handle, with the path it was opened on.\<close>

record File =
  fd :: nat
  Name :: string

text \<open>
  \<^verbatim>\<open>multipart.File\<close> and \<^verbatim>\<open>*multipart.FileHeader\<close>, as \<^verbatim>\<open>r.FormFile\<close> returns them: a
  handle on the bytes of the uploaded part, and its declared name and size.
\<close>

record multipart_File =
  mfd :: nat
  content :: string

record FileHeader =
  Filename :: string
  Size :: int

text \<open>The fields of the identity provider's \<^verbatim>\<open>SessionClaims\<close> and \<^verbatim>\<open>User\<close> that are read.\<close>

record SessionClaims =
  Subject :: string

record User =
  ID :: string
  Banned :: bool

text \<open>
  The transcription SDK: \<^verbatim>\<open>aai.TranscriptOptionalParams\<close> holds pointers to booleans
  (\<open>None\<close> is a nil pointer, an option left unset), \<^verbatim>\<open>aai.Transcript\<close> a pointer to the
  text.
\<close>

record TranscriptOptionalParams =
  Punctuate :: "bool option"
  FormatText :: "bool option"

record Transcript =
  Text :: "string option"

text \<open>
  The request to the completion provider: \<^verbatim>\<open>http.NewRequest("POST", url, payload)\<close> with the
  two headers set; the payload is kept as the map it is marshalled from.
\<close>

record chat_request =
  req_method :: string
  req_url :: string
  req_header :: "(string \<times> string) list"
  model :: string
  messages :: "(string \<times> string) list list"

text \<open>
  \<^verbatim>\<open>*http.Response\<close>. The body is a reader: \<open>unread\<close> are the bytes it would deliver,
  \<open>read_error\<close> the failure of reading them if any, and \<open>rendering\<close> the text that
  \<^verbatim>\<open>fmt\<close> prints for the reader value itself under \<^verbatim>\<open>%s\<close> (the reader is a pointer to an
  unexported struct of \<^verbatim>\<open>net/http\<close> with no \<^verbatim>\<open>String\<close> method, so \<^verbatim>\<open>fmt\<close> prints its fields,
  addresses and counters; formatting does not read from it).
\<close>

record ReadCloser =
  unread :: string
  read_error :: "error option"
  rendering :: string

record Response =
  StatusCode :: int
  Body :: ReadCloser

text \<open>The anonymous structs that \<^verbatim>\<open>getAIResponse\<close> and \<^verbatim>\<open>handleSummaryRequest\<close> decode into.\<close>

record message = Content :: string

record choice = Message :: message

record result = Choices :: "choice list"

record requestData = requestData_Text :: string

text \<open>The requests that leave the process, in the order they are made.\<close>

datatype call =
    UserGet string
  | TranscribeFromReader string string TranscriptOptionalParams
  | ChatCompletion chat_request

text \<open>
  The state outside the handler: the files on disk with their contents, the handles
  that are open, the next handle number, and the requests sent so far. Standard output
  (\<^verbatim>\<open>logMessage\<close>, \<^verbatim>\<open>fmt.Printf\<close>) is not part of it, so the logging calls are left out of
  the handlers, except line 143, whose argument can fail to evaluate.
\<close>

record world =
  disk :: "string \<rightharpoonup> string"
  opened :: "nat set"
  next_fd :: nat
  calls :: "call list"

text \<open>
  The answers of the operating system, of the libraries and of the three providers, which
  the program does not control: they are parameters. \<open>assemblyApiKey\<close> and
  \<open>groqApiKey\<close> are the two process-wide variables set in \<^verbatim>\<open>main\<close> (the earlier
  variants of the program call the first one \<^verbatim>\<open>apiKey\<close>).
\<close>

record env =
  assemblyApiKey :: string
  groqApiKey :: string
  user_Get :: "string \<Rightarrow> error + User"
  CreateTemp_result :: "string \<Rightarrow> string \<Rightarrow> error + string"
  Copy_failure :: "(nat \<times> error) option"
  Open_failure :: "string \<Rightarrow> error option"
  Transcribe_result :: "string \<Rightarrow> TranscriptOptionalParams \<Rightarrow> error + Transcript"
  client_Do :: "chat_request \<Rightarrow> error + Response"
  json_Unmarshal :: "string \<Rightarrow> error + result"

text \<open>
  \<^verbatim>\<open>*http.Request\<close>, as far as the handlers read it: the session claims that the
  identity provider's middleware left in the context (\<open>None\<close> when
  \<^verbatim>\<open>clerk.SessionClaimsFromContext\<close> answers \<^verbatim>\<open>ok = false\<close>), the multipart parts by field
  name, and what \<^verbatim>\<open>json.NewDecoder(r.Body).Decode\<close> makes of the body when it decodes into
  the zero-initialised \<^verbatim>\<open>requestData\<close> (a body without a \<^verbatim>\<open>text\<close> member leaves the field
  at its zero value, the empty string).
\<close>

record Request =
  ctx_SessionClaims :: "SessionClaims option"
  multipart_parts :: "string \<Rightarrow> error + (string \<times> FileHeader)"
  Decode_Body :: "error + requestData"

subsection \<open>The response writer\<close>

text \<open>
  \<^verbatim>\<open>http.ResponseWriter\<close> of \<^verbatim>\<open>net/http\<close>: the first \<^verbatim>\<open>WriteHeader\<close> fixes the status
  code and the headers that are sent, a later one is ignored; \<^verbatim>\<open>Write\<close> sends status 200
  first when no header was written; a header set after that changes the map and not the
  response.
\<close>

record ResponseWriter =
  wroteHeader :: bool
  status :: int
  header :: "(string \<times> string) list"
  sentHeader :: "(string \<times> string) list"
  body :: string

definition newResponseWriter :: ResponseWriter where
  "newResponseWriter =
     \<lparr>wroteHeader = False, status = 0, header = [], sentHeader = [], body = []\<rparr>"

definition WriteHeader :: "ResponseWriter \<Rightarrow> int \<Rightarrow> ResponseWriter" where
  "WriteHeader w code =
     (if wroteHeader w then w
      else w\<lparr>wroteHeader := True, status := code, sentHeader := header w\<rparr>)"

definition Write :: "ResponseWriter \<Rightarrow> string \<Rightarrow> ResponseWriter" where
  "Write w b =
     (let w1 = (if wroteHeader w then w else WriteHeader w 200)
      in w1\<lparr>body := body w1 @ b\<rparr>)"

definition Header_Del :: "ResponseWriter \<Rightarrow> string \<Rightarrow> ResponseWriter" where
  "Header_Del w k = w\<lparr>header := filter (\<lambda>kv. fst kv \<noteq> k) (header w)\<rparr>"

definition Header_Set :: "ResponseWriter \<Rightarrow> string \<Rightarrow> string \<Rightarrow> ResponseWriter" where
  "Header_Set w k v = w\<lparr>header := (k, v) # filter (\<lambda>kv. fst kv \<noteq> k) (header w)\<rparr>"

definition Fprintln :: "ResponseWriter \<Rightarrow> string \<Rightarrow> ResponseWriter" where
  "Fprintln w a = Write w (a @ [newline])"

text \<open>\<^verbatim>\<open>http.Error(w, error, code)\<close> of \<^verbatim>\<open>net/http\<close>.\<close>

definition http_Error :: "ResponseWriter \<Rightarrow> string \<Rightarrow> int \<Rightarrow> ResponseWriter" where
  "http_Error w msg code =
     (let w1 = Header_Del w ''Content-Length'';
          w2 = Header_Set w1 ''Content-Type'' ''text/plain; charset=utf-8'';
          w3 = Header_Set w2 ''X-Content-Type-Options'' ''nosniff'';
          w4 = WriteHeader w3 code
      in Fprintln w4 msg)"

definition StatusOK :: int where "StatusOK = 200"
definition StatusBadRequest :: int where "StatusBadRequest = 400"
definition StatusUnauthorized :: int where "StatusUnauthorized = 401"
definition StatusForbidden :: int where "StatusForbidden = 403"
definition StatusInternalServerError :: int where "StatusInternalServerError = 500"

subsection \<open>Files\<close>

definition record_call :: "call \<Rightarrow> world \<Rightarrow> world" where
  "record_call c s = s\<lparr>calls := calls s @ [c]\<rparr>"

text \<open>\<^verbatim>\<open>Close\<close> on a handle; the error it returns is dropped by the \<^verbatim>\<open>defer\<close> statements.\<close>

definition Close :: "nat \<Rightarrow> world \<Rightarrow> world" where
  "Close n s = s\<lparr>opened := opened s - {n}\<rparr>"

text \<open>\<^verbatim>\<open>r.FormFile(key)\<close>: the first part of that name, opened.\<close>

definition FormFile ::
  "Request \<Rightarrow> string \<Rightarrow> world \<Rightarrow> (error + multipart_File \<times> FileHeader) \<times> world" where
  "FormFile r key s =
     (case multipart_parts r key of
        Inl err \<Rightarrow> (Inl err, s)
      | Inr (bytes, hdr) \<Rightarrow>
          (Inr (\<lparr>mfd = next_fd s, content = bytes\<rparr>, hdr),
           s\<lparr>opened := insert (next_fd s) (opened s), next_fd := Suc (next_fd s)\<rparr>))"

text \<open>
  \<^verbatim>\<open>os.CreateTemp(dir, pattern)\<close>: the runtime picks the name and creates the file
  exclusively, empty and open; it fails when it finds no free name.
\<close>

definition CreateTemp ::
  "env \<Rightarrow> string \<Rightarrow> string \<Rightarrow> world \<Rightarrow> (error + File) \<times> world" where
  "CreateTemp e dir pattern s =
     (case CreateTemp_result e dir pattern of
        Inl err \<Rightarrow> (Inl err, s)
      | Inr name \<Rightarrow>
          if name \<in> dom (disk s) then (Inl (errorString (name @ '': file exists'')), s)
          else (Inr \<lparr>fd = next_fd s, Name = name\<rparr>,
                s\<lparr>disk := (disk s)(name \<mapsto> []),
                  opened := insert (next_fd s) (opened s),
                  next_fd := Suc (next_fd s)\<rparr>))"

text \<open>
  \<^verbatim>\<open>io.Copy(dst, src)\<close> into the fresh file: all the bytes of the part, or the first \<open>n\<close>
  and an error.
\<close>

definition Copy :: "env \<Rightarrow> File \<Rightarrow> multipart_File \<Rightarrow> world \<Rightarrow> (error + int) \<times> world" where
  "Copy e dst src s =
     (case Copy_failure e of
        Some (n, err) \<Rightarrow> (Inl err, s\<lparr>disk := (disk s)(Name dst \<mapsto> take n (content src))\<rparr>)
      | None \<Rightarrow>
          (Inr (int (length (content src))), s\<lparr>disk := (disk s)(Name dst \<mapsto> content src)\<rparr>))"

text \<open>\<^verbatim>\<open>os.Open(name)\<close>: a new handle on an existing file.\<close>

definition Open :: "env \<Rightarrow> string \<Rightarrow> world \<Rightarrow> (error + File) \<times> world" where
  "Open e name s =
     (if name \<notin> dom (disk s)
      then (Inl (errorString (''open '' @ name @ '': no such file or directory'')), s)
      else case Open_failure e name of
             Some err \<Rightarrow> (Inl err, s)
           | None \<Rightarrow>
               (Inr \<lparr>fd = next_fd s, Name = name\<rparr>,
                s\<lparr>opened := insert (next_fd s) (opened s), next_fd := Suc (next_fd s)\<rparr>))"

text \<open>
  \<^verbatim>\<open>client.Transcripts.TranscribeFromReader(ctx, file, params)\<close>: the bytes of the file and
  the options go to the provider, whose answer comes back when the job is done.
\<close>

definition Transcripts_TranscribeFromReader ::
  "env \<Rightarrow> string \<Rightarrow> File \<Rightarrow> TranscriptOptionalParams \<Rightarrow> world \<Rightarrow> (error + Transcript) \<times> world"
  where
  "Transcripts_TranscribeFromReader e key file params s =
     (let bytes = (case disk s (Name file) of None \<Rightarrow> [] | Some b \<Rightarrow> b)
      in (Transcribe_result e bytes params,
          record_call (TranscribeFromReader key bytes params) s))"

text \<open>
  A \<^verbatim>\<open>defer\<close> statement: the deferred call runs when the rest of the function is over,
  whether it returned or panicked.
\<close>

datatype outcome = Returned | Panicked string

definition deferred ::
  "(world \<Rightarrow> world) \<Rightarrow> outcome \<times> ResponseWriter \<times> world \<Rightarrow> outcome \<times> ResponseWriter \<times> world"
  where
  "deferred f rest = (case rest of (out, w, s) \<Rightarrow> (out, w, f s))"

text \<open>The same for a function that returns a value and cannot panic.\<close>

definition deferred_value :: "(world \<Rightarrow> world) \<Rightarrow> 'a \<times> world \<Rightarrow> 'a \<times> world" where
  "deferred_value f rest = (case rest of (v, s) \<Rightarrow> (v, f s))"

section \<open>The transcription client\<close>

text \<open>
  \<^verbatim>\<open>sendToAssemblyAI\<close> of the program with both routes (the \<^verbatim>\<open>main\<close> package that follows
  the module file in \<^verbatim>\<open>src/go.mod\<close>).
\<close>

definition sendToAssemblyAI :: "env \<Rightarrow> string \<Rightarrow> world \<Rightarrow> (error + Transcript) \<times> world" where
  "sendToAssemblyAI e fileName s =
     (case Open e fileName s of
        (Inl err, s1) \<Rightarrow> (Inl err, s1)
      | (Inr file, s1) \<Rightarrow>
          deferred_value (Close (fd file))
            (let params = \<lparr>Punctuate = Some True, FormatText = Some True\<rparr>
             in case Transcripts_TranscribeFromReader e (assemblyApiKey e) file params s1 of
                  (Inl err, s2) \<Rightarrow> (Inl err, s2)
                | (Inr transcript, s2) \<Rightarrow> (Inr transcript, s2)))"

text \<open>
  \<^verbatim>\<open>sendToAssemblyAI\<close> of the two earlier variants, \<^verbatim>\<open>src/main.go\<close> (one route, no
  authentication) and \<^verbatim>\<open>src/unnamed/part_001\<close> (one route, authenticated): the same text
  in both, with an empty options struct.
\<close>

definition sendToAssemblyAI_main_go ::
  "env \<Rightarrow> string \<Rightarrow> world \<Rightarrow> (error + Transcript) \<times> world" where
  "sendToAssemblyAI_main_go e fileName s =
     (case Open e fileName s of
        (Inl err, s1) \<Rightarrow> (Inl err, s1)
      | (Inr file, s1) \<Rightarrow>
          deferred_value (Close (fd file))
            (let params = \<lparr>Punctuate = None, FormatText = None\<rparr>
             in case Transcripts_TranscribeFromReader e (assemblyApiKey e) file params s1 of
                  (Inl err, s2) \<Rightarrow> (Inl err, s2)
                | (Inr transcript, s2) \<Rightarrow> (Inr transcript, s2)))"

definition sendToAssemblyAI_part_001 ::
  "env \<Rightarrow> string \<Rightarrow> world \<Rightarrow> (error + Transcript) \<times> world" where
  "sendToAssemblyAI_part_001 e fileName s =
     (case Open e fileName s of
        (Inl err, s1) \<Rightarrow> (Inl err, s1)
      | (Inr file, s1) \<Rightarrow>
          deferred_value (Close (fd file))
            (let params = \<lparr>Punctuate = None, FormatText = None\<rparr>
             in case Transcripts_TranscribeFromReader e (assemblyApiKey e) file params s1 of
                  (Inl err, s2) \<Rightarrow> (Inl err, s2)
                | (Inr transcript, s2) \<Rightarrow> (Inr transcript, s2)))"

section \<open>The summarization client\<close>

text \<open>The verb \<^verbatim>\<open>%d\<close> of \<^verbatim>\<open>fmt\<close>: an integer in decimal.\<close>

definition digit :: "nat \<Rightarrow> char" where
  "digit n = ''0123456789'' ! n"

function decimal_nat :: "nat \<Rightarrow> string" where
  "decimal_nat n = (if n < 10 then [digit n] else decimal_nat (n div 10) @ [digit (n mod 10)])"
  by pat_completeness auto
termination
  by (relation "measure (\<lambda>n. n)") auto

declare decimal_nat.simps [simp del]

definition decimal :: "int \<Rightarrow> string" where
  "decimal i = (if i < 0 then CHR ''-'' # decimal_nat (nat (- i)) else decimal_nat (nat i))"

text \<open>
  \<^verbatim>\<open>json.Marshal\<close> of a map of strings and \<^verbatim>\<open>http.NewRequest\<close> with a constant method and
  URL do not fail; the two error returns of the source stay as branches that are never
  taken.
\<close>

definition json_Marshal :: "'a \<Rightarrow> error + 'a" where
  "json_Marshal payload = Inr payload"

definition http_NewRequest ::
  "string \<Rightarrow> string \<Rightarrow> string \<times> (string \<times> string) list list \<Rightarrow> error + chat_request" where
  "http_NewRequest m u payload =
     Inr \<lparr>req_method = m, req_url = u, req_header = [], model = fst payload, messages = snd payload\<rparr>"

definition Header_Set_req :: "chat_request \<Rightarrow> string \<Rightarrow> string \<Rightarrow> chat_request" where
  "Header_Set_req req k v =
     req\<lparr>req_header := (k, v) # filter (\<lambda>kv. fst kv \<noteq> k) (req_header req)\<rparr>"

text \<open>
  \<^verbatim>\<open>client.Do(req)\<close>: the request leaves, the provider answers or the transport fails.
  The connection behind the body, which \<^verbatim>\<open>getAIResponse\<close> closes by a \<^verbatim>\<open>defer\<close>, is not part
  of the state.
\<close>

definition Do :: "env \<Rightarrow> chat_request \<Rightarrow> world \<Rightarrow> (error + Response) \<times> world" where
  "Do e req s = (client_Do e req, record_call (ChatCompletion req) s)"

definition ReadAll :: "ReadCloser \<Rightarrow> error + string" where
  "ReadAll r = (case read_error r of Some err \<Rightarrow> Inl err | None \<Rightarrow> Inr (unread r))"

definition getAIResponse :: "env \<Rightarrow> string \<Rightarrow> world \<Rightarrow> (error + string) \<times> world" where
  "getAIResponse e prompt s =
     (let u = ''https://api.groq.com/openai/v1/chat/completions'';
          payload = (''llama-3.3-70b-versatile'', [[(''role'', ''user''), (''content'', prompt)]])
      in case json_Marshal payload of
           Inl err \<Rightarrow> (Inl err, s)
         | Inr payloadBytes \<Rightarrow>
        (case http_NewRequest ''POST'' u payloadBytes of
           Inl err \<Rightarrow> (Inl err, s)
         | Inr req0 \<Rightarrow>
        (let req1 = Header_Set_req req0 ''Content-Type'' ''application/json'';
             req = Header_Set_req req1 ''Authorization'' (''Bearer '' @ groqApiKey e)
         in case Do e req s of
              (Inl err, s1) \<Rightarrow> (Inl err, s1)
            | (Inr resp, s1) \<Rightarrow>
                if StatusCode resp \<noteq> StatusOK
                then (Inl (errorString (''unexpected status code: '' @ decimal (StatusCode resp)
                             @ '', '' @ rendering (Body resp))), s1)
                else (case ReadAll (Body resp) of
                        Inl err \<Rightarrow> (Inl err, s1)
                      | Inr bytes \<Rightarrow>
                     (case json_Unmarshal e bytes of
                        Inl err \<Rightarrow> (Inl err, s1)
                      | Inr result \<Rightarrow>
                          if length (Choices result) = 0
                          then (Inl (errorString ''no response from AI''), s1)
                          else (Inr (Content (Message (Choices result ! 0))), s1))))))"

section \<open>The handlers\<close>

definition promptPrefix :: string where
  "promptPrefix =
     ''Task: Summarize the following transcript of a STEM lecture. Extract the main points, key concepts, and essential details.''
     @ [newline, newline]
     @ ''If any critical information is missing or unclear, use your knowledge to fill in gaps while staying true to the topic.''
     @ [newline]
     @ ''Output format: The summary must be written in Markdown. You may use:''
     @ [newline]
     @ ''  Headings (#, ##, ###) to structure content.''
     @ [newline]
     @ ''  Bullet points (-, *) for key points.''
     @ [newline]
     @ ''  Tables when presenting structured data.''
     @ [newline]
     @ ''  LaTeX ($inline$ or $$block$$) for mathematical notation.''
     @ [newline]
     @ ''Strict formatting rule: Output only the Markdown-formatted summary''
     @ [CHR 0xE2, CHR 0x80, CHR 0x94]
     @ ''no extra text, explanations, or disclaimers. Any deviation from this instruction will result in a 0 grade.''
     @ [newline]
     @ ''Transcript:''"

text \<open>\<^verbatim>\<open>user.Get(ctx, id)\<close> of the identity provider's SDK: one lookup request.\<close>

definition Get :: "env \<Rightarrow> string \<Rightarrow> world \<Rightarrow> (error + User) \<times> world" where
  "Get e subject s = (user_Get e subject, record_call (UserGet subject) s)"

text \<open>
  Lines 104 to 147 of \<^verbatim>\<open>uploadHandler\<close>, from \<^verbatim>\<open>r.FormFile\<close> to the success response.
  The three variants of the program have this text word for word (in \<^verbatim>\<open>src/main.go\<close> it
  is the whole handler); each calls the \<^verbatim>\<open>sendToAssemblyAI\<close> of its own file, which is
  the parameter \<open>send\<close>. Dereferencing \<^verbatim>\<open>transcript.Text\<close> on line 143 panics when the
  pointer is nil, before anything is written to the response.
\<close>

definition uploadHandler_rest ::
  "(env \<Rightarrow> string \<Rightarrow> world \<Rightarrow> (error + Transcript) \<times> world) \<Rightarrow>
   env \<Rightarrow> ResponseWriter \<Rightarrow> Request \<Rightarrow> world \<Rightarrow> outcome \<times> ResponseWriter \<times> world" where
  \<open>uploadHandler_rest send e w r s =
     (case FormFile r ''uploadfile'' s of
        (Inl err, s1) \<Rightarrow> (Returned, http_Error w (Error_text err) StatusBadRequest, s1)
      | (Inr (file, hdr), s1) \<Rightarrow>
          deferred (Close (mfd file))
       (case CreateTemp e '''' ''upload-*.tmp'' s1 of
          (Inl err, s2) \<Rightarrow> (Returned, http_Error w (Error_text err) StatusInternalServerError, s2)
        | (Inr tempFile, s2) \<Rightarrow>
            deferred (Close (fd tempFile))
         (case Copy e tempFile file s2 of
            (Inl err, s3) \<Rightarrow>
              (Returned, http_Error w (Error_text err) StatusInternalServerError, s3)
          | (Inr written, s3) \<Rightarrow>
           (case send e (Name tempFile) s3 of
              (Inl err, s4) \<Rightarrow>
                (Returned, http_Error w (Error_text err) StatusInternalServerError, s4)
            | (Inr transcript, s4) \<Rightarrow>
               (case Text transcript of
                  None \<Rightarrow>
                    (Panicked ''invalid memory address or nil pointer dereference'', w, s4)
                | Some text \<Rightarrow>
                    (let w1 = WriteHeader w StatusOK
                     in (Returned,
                         Fprintln w1 (''{"status": "success", "transcript": "'' @ text @ ''"}''),
                         s4)))))))\<close>

text \<open>\<^verbatim>\<open>uploadHandler\<close> of the program with both routes.\<close>

definition uploadHandler ::
  "env \<Rightarrow> ResponseWriter \<Rightarrow> Request \<Rightarrow> world \<Rightarrow> outcome \<times> ResponseWriter \<times> world" where
  \<open>uploadHandler e w r s =
     (case ctx_SessionClaims r of
        None \<Rightarrow>
          (let w1 = WriteHeader w StatusUnauthorized
           in (Returned, Write w1 ''{"access": "unauthorized"}'', s))
      | Some claims \<Rightarrow>
       (case Get e (Subject claims) s of
          (Inl err, s1) \<Rightarrow>
            (let w1 = WriteHeader w StatusInternalServerError
             in (Returned, Write w1 ''{"access": "internal server error"}'', s1))
        | (Inr usr, s1) \<Rightarrow>
            if Banned usr
            then (let w1 = WriteHeader w StatusForbidden
                  in (Returned, Write w1 ''{"access": "forbidden"}'', s1))
            else uploadHandler_rest sendToAssemblyAI e w r s1))\<close>

text \<open>\<^verbatim>\<open>uploadHandler\<close> of \<^verbatim>\<open>src/unnamed/part_001\<close>.\<close>

definition uploadHandler_part_001 ::
  "env \<Rightarrow> ResponseWriter \<Rightarrow> Request \<Rightarrow> world \<Rightarrow> outcome \<times> ResponseWriter \<times> world" where
  \<open>uploadHandler_part_001 e w r s =
     (case ctx_SessionClaims r of
        None \<Rightarrow>
          (let w1 = WriteHeader w StatusUnauthorized
           in (Returned, Write w1 ''{"access": "unauthorized"}'', s))
      | Some claims \<Rightarrow>
       (case Get e (Subject claims) s of
          (Inl err, s1) \<Rightarrow>
            (let w1 = WriteHeader w StatusInternalServerError
             in (Returned, Write w1 ''{"access": "internal server error"}'', s1))
        | (Inr usr, s1) \<Rightarrow>
            if Banned usr
            then (let w1 = WriteHeader w StatusForbidden
                  in (Returned, Write w1 ''{"access": "forbidden"}'', s1))
            else uploadHandler_rest sendToAssemblyAI_part_001 e w r s1))\<close>

text \<open>\<^verbatim>\<open>uploadHandler\<close> of \<^verbatim>\<open>src/main.go\<close>, on the route without authentication.\<close>

definition uploadHandler_main_go ::
  "env \<Rightarrow> ResponseWriter \<Rightarrow> Request \<Rightarrow> world \<Rightarrow> outcome \<times> ResponseWriter \<times> world" where
  "uploadHandler_main_go e w r s = uploadHandler_rest sendToAssemblyAI_main_go e w r s"

text \<open>
  Lines 172 to 205 of \<^verbatim>\<open>handleSummaryRequest\<close>, from the decoding of the body on.
  \<^verbatim>\<open>fmt.Fprintf\<close> with the one verb \<^verbatim>\<open>%s\<close> puts the sanitized summary between the two
  halves of the format. The content type is set after \<^verbatim>\<open>WriteHeader\<close>, as in the source.
\<close>

definition handleSummaryRequest_rest ::
  "env \<Rightarrow> ResponseWriter \<Rightarrow> Request \<Rightarrow> world \<Rightarrow> outcome \<times> ResponseWriter \<times> world" where
  \<open>handleSummaryRequest_rest e w r s =
     (case Decode_Body r of
        Inl err \<Rightarrow> (Returned, http_Error w ''Invalid JSON body'' StatusBadRequest, s)
      | Inr requestData \<Rightarrow>
       (let transcript = requestData_Text requestData
        in if transcript = []
           then (Returned, http_Error w ''No transcript provided'' StatusBadRequest, s)
           else (case getAIResponse e (promptPrefix @ transcript) s of
                   (Inl err, s1) \<Rightarrow>
                     (Returned, http_Error w (Error_text err) StatusInternalServerError, s1)
                 | (Inr summary, s1) \<Rightarrow>
                     (let sanitizedSummary = sanitizeInput summary;
                          w1 = WriteHeader w StatusOK;
                          w2 = Header_Set w1 ''Content-Type'' ''application/json''
                      in (Returned,
                          Write w2 (''{"status": "success", "summary": "'' @ sanitizedSummary
                                    @ ''"}''),
                          s1)))))\<close>

definition handleSummaryRequest ::
  "env \<Rightarrow> ResponseWriter \<Rightarrow> Request \<Rightarrow> world \<Rightarrow> outcome \<times> ResponseWriter \<times> world" where
  \<open>handleSummaryRequest e w r s =
     (case ctx_SessionClaims r of
        None \<Rightarrow>
          (let w1 = WriteHeader w StatusUnauthorized
           in (Returned, Write w1 ''{"access": "unauthorized"}'', s))
      | Some claims \<Rightarrow>
       (case Get e (Subject claims) s of
          (Inl err, s1) \<Rightarrow>
            (let w1 = WriteHeader w StatusInternalServerError
             in (Returned, Write w1 ''{"access": "internal server error"}'', s1))
        | (Inr usr, s1) \<Rightarrow>
            if Banned usr
            then (let w1 = WriteHeader w StatusForbidden
                  in (Returned, Write w1 ''{"access": "forbidden"}'', s1))
            else handleSummaryRequest_rest e w r s1))\<close>

section \<open>Reading the responses as JSON\<close>

text \<open>
  The two notions of JSON (RFC 8259) that the properties below speak of; they are not
  part of the program. \<open>json_compact\<close> drops the insignificant white space of a JSON
  text, the space, tab, line feed and carriage return outside string literals (the flag
  says whether the reader is inside a literal).
\<close>

definition json_whitespace :: "char \<Rightarrow> bool" where
  "json_whitespace c = (c = CHR '' '' \<or> c = tab \<or> c = newline \<or> c = carriage_return)"

fun json_compact :: "bool \<Rightarrow> string \<Rightarrow> string" where
  "json_compact inside [] = []"
| "json_compact False (c # cs) =
     (if json_whitespace c then json_compact False cs
      else if c = quote then c # json_compact True cs
      else c # json_compact False cs)"
| "json_compact True [c] = [c]"
| "json_compact True (c # d # cs) =
     (if c = backslash then c # d # json_compact True cs
      else if c = quote then c # json_compact False (d # cs)
      else c # json_compact True (d # cs))"

text \<open>
  \<open>json_read_string\<close> reads a string literal from just after its opening quote: the
  value it denotes and the text left after the closing quote, or \<open>None\<close> when the
  literal is not well formed. The two-character escapes are decoded; a \<^verbatim>\<open>\u\<close> escape is
  beyond this reader, which answers \<open>None\<close> for it.
\<close>

definition json_unescape :: "char \<Rightarrow> char option" where
  "json_unescape d =
     (if d = quote \<or> d = backslash \<or> d = CHR ''/'' then Some d
      else if d = CHR ''b'' then Some (CHR 0x08)
      else if d = CHR ''f'' then Some form_feed
      else if d = CHR ''n'' then Some newline
      else if d = CHR ''r'' then Some carriage_return
      else if d = CHR ''t'' then Some tab
      else None)"

fun json_read_string :: "string \<Rightarrow> (string \<times> string) option" where
  "json_read_string [] = None"
| "json_read_string [c] = (if c = quote then Some ([], []) else None)"
| "json_read_string (c # d # cs) =
     (if c = quote then Some ([], d # cs)
      else if c = backslash then
        (case json_unescape d of
           None \<Rightarrow> None
         | Some x \<Rightarrow>
             (case json_read_string cs of
                None \<Rightarrow> None
              | Some (v, rest) \<Rightarrow> Some (x # v, rest)))
      else if is_control c then None
      else (case json_read_string (d # cs) of
              None \<Rightarrow> None
            | Some (v, rest) \<Rightarrow> Some (c # v, rest)))"

text \<open>
  The \<^verbatim>\<open>transcript\<close> member of a success body of the transcribe route, for a client that
  parses the body as JSON: the body is the opening text, one string literal, and the
  closing brace with the line feed of \<^verbatim>\<open>Fprintln\<close>.
\<close>

definition transcript_field :: "string \<Rightarrow> string option" where
  \<open>transcript_field b =
     (let opening = ''{"status": "success", "transcript": "''
      in if prefix opening b
         then (case json_read_string (drop (length opening) b) of
                 None \<Rightarrow> None
               | Some (v, rest) \<Rightarrow> if rest = ''}'' @ [newline] then Some v else None)
         else None)\<close>

section \<open>Notions used in the statements\<close>

text \<open>
  The response writer of a handler that was given a fresh one and called
  \<^verbatim>\<open>WriteHeader(code)\<close> and \<^verbatim>\<open>Write(b)\<close> once each, with no header set.
\<close>

definition responded :: "int \<Rightarrow> string \<Rightarrow> ResponseWriter" where
  "responded code b =
     \<lparr>wroteHeader = True, status = code, header = [], sentHeader = [], body = b\<rparr>"

text \<open>The response writer after \<^verbatim>\<open>http.Error(w, msg, code)\<close> on a fresh one.\<close>

definition error_response :: "int \<Rightarrow> string \<Rightarrow> ResponseWriter" where
  "error_response code msg =
     \<lparr>wroteHeader = True, status = code,
      header = [(''X-Content-Type-Options'', ''nosniff''),
                (''Content-Type'', ''text/plain; charset=utf-8'')],
      sentHeader = [(''X-Content-Type-Options'', ''nosniff''),
                    (''Content-Type'', ''text/plain; charset=utf-8'')],
      body = msg @ [newline]\<rparr>"

text \<open>
  The authentication state of a request lets it through: claims are present, the lookup
  of their subject succeeds, and the user is not banned.
\<close>

definition auth_passes :: "env \<Rightarrow> Request \<Rightarrow> bool" where
  "auth_passes e r =
     (case ctx_SessionClaims r of
        None \<Rightarrow> False
      | Some claims \<Rightarrow>
          (case user_Get e (Subject claims) of Inl err \<Rightarrow> False | Inr usr \<Rightarrow> \<not> Banned usr))"

text \<open>The requests sent between two states of the world.\<close>

definition new_calls :: "world \<Rightarrow> world \<Rightarrow> call list" where
  "new_calls s s' = drop (length (calls s)) (calls s')"

fun is_ChatCompletion :: "call \<Rightarrow> bool" where
  "is_ChatCompletion (ChatCompletion req) = True"
| "is_ChatCompletion c = False"

fun transcribe_options :: "call \<Rightarrow> TranscriptOptionalParams option" where
  "transcribe_options (TranscribeFromReader key bytes params) = Some params"
| "transcribe_options c = None"

text \<open>
  An upload gets as far as an answer \<open>t\<close> of the transcription provider: the part is
  there, the temporary file is created under a free name, the copy and the reopening
  succeed, and the provider, asked with the options \<open>params\<close>, answers \<open>t\<close>.
\<close>

definition transcription_answers ::
  "env \<Rightarrow> Request \<Rightarrow> world \<Rightarrow> TranscriptOptionalParams \<Rightarrow> Transcript \<Rightarrow> bool" where
  "transcription_answers e r s params t =
     (case multipart_parts r ''uploadfile'' of
        Inl err \<Rightarrow> False
      | Inr (bytes, hdr) \<Rightarrow>
          (case CreateTemp_result e '''' ''upload-*.tmp'' of
             Inl err \<Rightarrow> False
           | Inr name \<Rightarrow>
               disk s name = None \<and> Copy_failure e = None \<and> Open_failure e name = None
               \<and> Transcribe_result e bytes params = Inr t))"

text \<open>A byte that may stand for itself in a JSON string literal.\<close>

definition json_plain :: "char \<Rightarrow> bool" where
  "json_plain c = (c \<noteq> quote \<and> c \<noteq> backslash \<and> \<not> is_control c)"

section \<open>Sample inputs\<close>

text \<open>
  A world with nothing on disk, an environment in which every outside call succeeds (the
  transcription provider answers \<^verbatim>\<open>hello world\<close>, the completion provider one choice),
  and an authenticated request that carries both a ten-byte upload and a JSON body.
\<close>

definition world0 :: world where
  "world0 = \<lparr>disk = Map.empty, opened = {}, next_fd = 3, calls = []\<rparr>"

definition response0 :: Response where
  \<open>response0 =
     \<lparr>StatusCode = 200,
      Body = \<lparr>unread = ''{"choices":[{"message":{"content":"# Summary'' @ [backslash]
                       @ ''n- calculus"}}]}'',
              read_error = None,
              rendering = ''&{0xc00012a000}''\<rparr>\<rparr>\<close>

definition env0 :: env where
  "env0 =
     \<lparr>assemblyApiKey = ''aai-key'',
      groqApiKey = ''groq-key'',
      user_Get = (\<lambda>subject. Inr \<lparr>ID = subject, Banned = False\<rparr>),
      CreateTemp_result = (\<lambda>dir pattern. Inr ''/tmp/upload-1.tmp''),
      Copy_failure = None,
      Open_failure = (\<lambda>name. None),
      Transcribe_result = (\<lambda>bytes params. Inr \<lparr>Text = Some ''hello world''\<rparr>),
      client_Do = (\<lambda>req. Inr response0),
      json_Unmarshal =
        (\<lambda>bytes. Inr \<lparr>Choices =
           [\<lparr>Message = \<lparr>Content = ''# Summary'' @ [newline] @ ''- calculus''\<rparr>\<rparr>]\<rparr>)\<rparr>"

definition request0 :: Request where
  "request0 =
     \<lparr>ctx_SessionClaims = Some \<lparr>Subject = ''user_1''\<rparr>,
      multipart_parts =
        (\<lambda>key. if key = ''uploadfile''
              then Inr (''RIFF0WAVE0'', \<lparr>Filename = ''a.wav'', Size = 10\<rparr>)
              else Inl (errorString ''http: no such file'')),
      Decode_Body = Inr \<lparr>requestData_Text = ''lecture on integrals''\<rparr>\<rparr>"

text \<open>The same environment with a transcript that quotes two words, \<^verbatim>\<open>say "hi"\<close>.\<close>

definition env_quoted :: env where
  \<open>env_quoted = env0\<lparr>Transcribe_result := (\<lambda>bytes params. Inr \<lparr>Text = Some ''say "hi"''\<rparr>)\<rparr>\<close>

section \<open>Properties of the sanitizer\<close>

lemmas byte_defs =
  backslash_def quote_def newline_def tab_def carriage_return_def form_feed_def

lemma ReplaceAll_single:
  "ReplaceAll s [a] r = concat (map (\<lambda>x. if x = a then r else [x]) s)"
  by (induction s) auto

lemma concat_map_concat_map:
  "concat (map f (concat (map g s))) = concat (map (\<lambda>x. concat (map f (g x))) s)"
  by (induction s) auto

lemma filter_concat_map:
  "filter P (concat (map g s)) = concat (map (\<lambda>x. filter P (g x)) s)"
  by (induction s) auto

lemma sanitizeInput_bytewise: "sanitizeInput s = concat (map escape_byte s)"
  unfolding sanitizeInput_def Let_def re_ReplaceAllString_empty_def ReplaceAll_single
    concat_map_concat_map filter_concat_map
  apply (rule arg_cong[where f=concat])
  apply (rule map_cong[OF refl])
  apply (simp add: escape_byte_def byte_defs re_match_def)
  done

lemma sanitizeInput_Nil: "sanitizeInput [] = []"
  by (simp add: sanitizeInput_bytewise)

lemma sanitizeInput_Cons: "sanitizeInput (c # cs) = escape_byte c @ sanitizeInput cs"
  by (simp add: sanitizeInput_bytewise)

lemma byte_code_iff:
  "c = backslash \<longleftrightarrow> of_char c = (0x5C::nat)"
  "c = quote \<longleftrightarrow> of_char c = (0x22::nat)"
  "c = newline \<longleftrightarrow> of_char c = (0x0A::nat)"
  "c = tab \<longleftrightarrow> of_char c = (0x09::nat)"
  "c = carriage_return \<longleftrightarrow> of_char c = (0x0D::nat)"
  "c = form_feed \<longleftrightarrow> of_char c = (0x0C::nat)"
proof -
  have eq: "\<And>d n. of_char d = (n::nat) \<Longrightarrow> (c = d \<longleftrightarrow> of_char c = n)"
    by (metis of_char_eq_iff)
  show "c = backslash \<longleftrightarrow> of_char c = (0x5C::nat)" by (rule eq) (simp add: backslash_def)
  show "c = quote \<longleftrightarrow> of_char c = (0x22::nat)" by (rule eq) (simp add: quote_def)
  show "c = newline \<longleftrightarrow> of_char c = (0x0A::nat)" by (rule eq) (simp add: newline_def)
  show "c = tab \<longleftrightarrow> of_char c = (0x09::nat)" by (rule eq) (simp add: tab_def)
  show "c = carriage_return \<longleftrightarrow> of_char c = (0x0D::nat)"
    by (rule eq) (simp add: carriage_return_def)
  show "c = form_feed \<longleftrightarrow> of_char c = (0x0C::nat)" by (rule eq) (simp add: form_feed_def)
qed

text \<open>
  The control characters are the bytes of the regular expression and the three that it
  leaves out, which the replacements have taken before.
\<close>

lemma is_control_cases:
  "is_control c \<longleftrightarrow> re_match c \<or> c = newline \<or> c = tab \<or> c = carriage_return"
  unfolding is_control_def re_match_def Let_def byte_code_iff by arith

lemma escape_byte_no_control: "x \<in> set (escape_byte c) \<Longrightarrow> \<not> is_control x"
  by (auto simp: escape_byte_def is_control_cases split: if_splits)
     (simp_all add: byte_defs re_match_def)

text \<open>The output of the sanitizer holds no raw control character.\<close>

lemma sanitizeInput_no_control: "x \<in> set (sanitizeInput s) \<Longrightarrow> \<not> is_control x"
  by (auto simp: sanitizeInput_bytewise dest: escape_byte_no_control)

text \<open>
  On an input without a double quote the output is well-formed JSON string content: the
  quote is the one byte that the sanitizer lets through and JSON does not.
\<close>

lemma sanitizeInput_json_without_quote:
  "quote \<notin> set s \<Longrightarrow> json_string_content Plain (sanitizeInput s)"
proof (induction s)
  case Nil
  show ?case by (simp add: sanitizeInput_Nil)
next
  case (Cons c cs)
  then have rest: "json_string_content Plain (sanitizeInput cs)" and nq: "c \<noteq> quote"
    by auto
  show ?case
    using rest nq
    by (auto simp: sanitizeInput_Cons escape_byte_def is_control_cases)
qed

lemma escaped_imp_backslash:
  "\<exists>c \<in> set s. escaped c \<Longrightarrow> backslash \<in> set (sanitizeInput s)"
  by (induction s) (auto simp: sanitizeInput_Cons sanitizeInput_Nil escape_byte_def escaped_def)

lemma sanitizeInput_unescaped:
  "\<forall>c \<in> set s. \<not> escaped c \<Longrightarrow> sanitizeInput s = filter (\<lambda>c. \<not> re_match c) s"
  by (induction s) (auto simp: sanitizeInput_Cons sanitizeInput_Nil escape_byte_def escaped_def)

lemma sanitizeInput_length_clean:
  "\<forall>c \<in> set t. \<not> is_control c \<Longrightarrow>
   length (sanitizeInput t) = length t + length (filter (\<lambda>c. c = backslash) t)"
  by (induction t)
     (auto simp: sanitizeInput_Cons sanitizeInput_Nil escape_byte_def is_control_cases
        form_feed_def re_match_def)

text \<open>
  C1. Claim: for every input, the output of \<^verbatim>\<open>sanitizeInput\<close> between double quotes is
  well-formed JSON string content, and nothing in it can end the literal. The sanitizer
  escapes the backslash and the control characters and passes the double quote through:
  on the input \<^verbatim>\<open>a"b\<close> the output is the input, it is not JSON string content, and a
  reader of the literal \<^verbatim>\<open>"a"b"\<close> finds the string \<^verbatim>\<open>a\<close> with \<^verbatim>\<open>b"\<close> left over.
\<close>

theorem sanitizeInput_passes_quote:
  \<open>sanitizeInput ''a"b'' = ''a"b''
   \<and> \<not> json_string_content Plain (sanitizeInput ''a"b'')
   \<and> json_read_string (sanitizeInput ''a"b'' @ [quote]) = Some (''a'', ''b"'')\<close>
  by (simp add: sanitizeInput_bytewise escape_byte_def byte_defs re_match_def is_control_def)

text \<open>
  C2. Claim: \<^verbatim>\<open>sanitizeInput\<close> is idempotent on every input. It is not: a backslash
  becomes two, and the second run makes four of them.
\<close>

theorem sanitizeInput_not_idempotent:
  "sanitizeInput (sanitizeInput [backslash]) \<noteq> sanitizeInput [backslash]"
  by (simp add: sanitizeInput_bytewise escape_byte_def)

text \<open>
  C2, amended. A second run of \<^verbatim>\<open>sanitizeInput\<close> changes nothing exactly when the input
  holds none of the five bytes that are escaped (backslash, newline, tab, carriage
  return, form feed): every escape sequence of the first run starts with a backslash,
  which the second run doubles.
\<close>

theorem sanitizeInput_idempotent_iff:
  "sanitizeInput (sanitizeInput s) = sanitizeInput s \<longleftrightarrow> (\<forall>c \<in> set s. \<not> escaped c)"
proof
  assume plain: "\<forall>c \<in> set s. \<not> escaped c"
  then have one: "sanitizeInput s = filter (\<lambda>c. \<not> re_match c) s"
    by (rule sanitizeInput_unescaped)
  have "\<forall>c \<in> set (filter (\<lambda>c. \<not> re_match c) s). \<not> escaped c"
    using plain by simp
  then have "sanitizeInput (filter (\<lambda>c. \<not> re_match c) s) =
      filter (\<lambda>c. \<not> re_match c) (filter (\<lambda>c. \<not> re_match c) s)"
    by (rule sanitizeInput_unescaped)
  then show "sanitizeInput (sanitizeInput s) = sanitizeInput s"
    by (simp add: one)
next
  assume idem: "sanitizeInput (sanitizeInput s) = sanitizeInput s"
  show "\<forall>c \<in> set s. \<not> escaped c"
  proof (rule ccontr)
    assume "\<not> (\<forall>c \<in> set s. \<not> escaped c)"
    then have "backslash \<in> set (sanitizeInput s)"
      using escaped_imp_backslash by blast
    then have "filter (\<lambda>c. c = backslash) (sanitizeInput s) \<noteq> []"
      by (auto simp: filter_empty_conv)
    moreover have "length (sanitizeInput (sanitizeInput s)) =
        length (sanitizeInput s) + length (filter (\<lambda>c. c = backslash) (sanitizeInput s))"
      by (rule sanitizeInput_length_clean) (auto dest: sanitizeInput_no_control)
    ultimately show False
      using idem by simp
  qed
qed

theorem sanitizeInput_idempotent_iff_witness:
  \<open>list_all (\<lambda>c. \<not> escaped c) (''a"b'' @ [CHR 0x01])
   \<and> sanitizeInput (sanitizeInput (''a"b'' @ [CHR 0x01])) = sanitizeInput (''a"b'' @ [CHR 0x01])
   \<and> sanitizeInput (''a"b'' @ [CHR 0x01]) = ''a"b''\<close>
  using sanitizeInput_idempotent_iff [of \<open>''a"b'' @ [CHR 0x01]\<close>]
  by (simp add: escaped_def byte_defs sanitizeInput_bytewise escape_byte_def re_match_def)

section \<open>Properties of the handlers\<close>

lemmas status_defs =
  StatusOK_def StatusBadRequest_def StatusUnauthorized_def StatusForbidden_def
  StatusInternalServerError_def

lemmas writer_defs =
  WriteHeader_def Write_def Header_Del_def Header_Set_def Fprintln_def http_Error_def
  newResponseWriter_def responded_def error_response_def

lemmas world_defs =
  record_call_def Close_def FormFile_def CreateTemp_def Copy_def Open_def
  Transcripts_TranscribeFromReader_def deferred_def deferred_value_def Get_def Do_def

lemmas send_defs =
  sendToAssemblyAI_def sendToAssemblyAI_main_go_def sendToAssemblyAI_part_001_def

lemmas handler_defs =
  uploadHandler_def uploadHandler_part_001_def uploadHandler_main_go_def
  uploadHandler_rest_def

subsection \<open>The authentication prelude\<close>

text \<open>
  The three bodies that the prelude writes have a space after the colon; as JSON texts
  they are the objects with the one member \<^verbatim>\<open>access\<close>.
\<close>

lemma access_bodies_compact:
  \<open>json_compact False ''{"access": "unauthorized"}'' = ''{"access":"unauthorized"}''\<close>
  \<open>json_compact False ''{"access": "internal server error"}'' =
     ''{"access":"internal server error"}''\<close>
  \<open>json_compact False ''{"access": "forbidden"}'' = ''{"access":"forbidden"}''\<close>
  by (simp_all add: json_whitespace_def byte_defs)

text \<open>
  C4. In each of the three authenticated handlers (the transcribe handler of the program
  with both routes, its summarize handler, and the transcribe handler of
  \<^verbatim>\<open>src/unnamed/part_001\<close>), called with a fresh response writer: without session claims
  the response is status 401 with the body \<^verbatim>\<open>{"access": "unauthorized"}\<close> and nothing else
  happens; when the lookup of the user fails it is status 500 with
  \<^verbatim>\<open>{"access": "internal server error"}\<close>; when the user is banned it is status 403 with
  \<^verbatim>\<open>{"access": "forbidden"}\<close>; in these two cases the lookup is the only request made.
  In all three cases the handler returns there. Otherwise nothing is written and the
  rest of the handler runs, after the one lookup.
\<close>

theorem auth_prelude_responses:
  assumes "h = uploadHandler \<and> rest = uploadHandler_rest sendToAssemblyAI
         \<or> h = handleSummaryRequest \<and> rest = handleSummaryRequest_rest
         \<or> h = uploadHandler_part_001 \<and> rest = uploadHandler_rest sendToAssemblyAI_part_001"
  shows \<open>(ctx_SessionClaims r = None \<longrightarrow>
            h e newResponseWriter r s =
              (Returned, responded 401 ''{"access": "unauthorized"}'', s))
       \<and> (\<forall>claims err. ctx_SessionClaims r = Some claims \<and> user_Get e (Subject claims) = Inl err \<longrightarrow>
            h e newResponseWriter r s =
              (Returned, responded 500 ''{"access": "internal server error"}'',
               record_call (UserGet (Subject claims)) s))
       \<and> (\<forall>claims usr. ctx_SessionClaims r = Some claims \<and> user_Get e (Subject claims) = Inr usr
              \<and> Banned usr \<longrightarrow>
            h e newResponseWriter r s =
              (Returned, responded 403 ''{"access": "forbidden"}'',
               record_call (UserGet (Subject claims)) s))
       \<and> (\<forall>claims usr. ctx_SessionClaims r = Some claims \<and> user_Get e (Subject claims) = Inr usr
              \<and> \<not> Banned usr \<longrightarrow>
            h e w r s = rest e w r (record_call (UserGet (Subject claims)) s))\<close>
  using assms
  by (auto simp: uploadHandler_def handleSummaryRequest_def uploadHandler_part_001_def
      Get_def writer_defs status_defs)

text \<open>C4, at sample requests: one for each of the four cases.\<close>

theorem auth_prelude_responses_witness:
  \<open>uploadHandler env0 newResponseWriter (request0\<lparr>ctx_SessionClaims := None\<rparr>) world0 =
     (Returned, responded 401 ''{"access": "unauthorized"}'', world0)
   \<and> handleSummaryRequest (env0\<lparr>user_Get := (\<lambda>subject. Inl (errorString ''lookup failed''))\<rparr>)
       newResponseWriter request0 world0 =
     (Returned, responded 500 ''{"access": "internal server error"}'',
      record_call (UserGet ''user_1'') world0)
   \<and> uploadHandler_part_001 (env0\<lparr>user_Get := (\<lambda>subject. Inr \<lparr>ID = subject, Banned = True\<rparr>)\<rparr>)
       newResponseWriter request0 world0 =
     (Returned, responded 403 ''{"access": "forbidden"}'',
      record_call (UserGet ''user_1'') world0)
   \<and> handleSummaryRequest env0 newResponseWriter request0 world0 =
     handleSummaryRequest_rest env0 newResponseWriter request0
       (record_call (UserGet ''user_1'') world0)\<close>
  using
    auth_prelude_responses [of uploadHandler "uploadHandler_rest sendToAssemblyAI"
      "request0\<lparr>ctx_SessionClaims := None\<rparr>" env0 world0 newResponseWriter]
    auth_prelude_responses [of handleSummaryRequest handleSummaryRequest_rest request0
      "env0\<lparr>user_Get := (\<lambda>subject. Inl (errorString ''lookup failed''))\<rparr>" world0
      newResponseWriter]
    auth_prelude_responses [of uploadHandler_part_001
      "uploadHandler_rest sendToAssemblyAI_part_001" request0
      "env0\<lparr>user_Get := (\<lambda>subject. Inr \<lparr>ID = subject, Banned = True\<rparr>)\<rparr>" world0
      newResponseWriter]
    auth_prelude_responses [of handleSummaryRequest handleSummaryRequest_rest request0
      env0 world0 newResponseWriter]
  by (simp add: env0_def request0_def)

text \<open>
  C9. The prelude of the transcribe handler and the prelude of the summarize handler do
  the same: for an authentication state that does not let the request through, the two
  handlers give the same outcome, the same response (status, headers, body) and the same
  state of the world; for one that does, both write nothing and hand the same writer and
  the same world, after the same lookup, to what follows.
\<close>

theorem auth_prelude_same:
  "(\<not> auth_passes e r \<longrightarrow> uploadHandler e w r s = handleSummaryRequest e w r s)
   \<and> (auth_passes e r \<longrightarrow>
        (\<exists>claims. ctx_SessionClaims r = Some claims
           \<and> uploadHandler e w r s =
               uploadHandler_rest sendToAssemblyAI e w r (record_call (UserGet (Subject claims)) s)
           \<and> handleSummaryRequest e w r s =
               handleSummaryRequest_rest e w r (record_call (UserGet (Subject claims)) s)))"
  by (auto simp: auth_passes_def uploadHandler_def handleSummaryRequest_def Get_def
      split: option.splits sum.splits)

text \<open>C9, at a banned user and at a user who is let through.\<close>

theorem auth_prelude_same_witness:
  "\<not> auth_passes (env0\<lparr>user_Get := (\<lambda>subject. Inr \<lparr>ID = subject, Banned = True\<rparr>)\<rparr>) request0
   \<and> uploadHandler (env0\<lparr>user_Get := (\<lambda>subject. Inr \<lparr>ID = subject, Banned = True\<rparr>)\<rparr>)
       newResponseWriter request0 world0
     = handleSummaryRequest (env0\<lparr>user_Get := (\<lambda>subject. Inr \<lparr>ID = subject, Banned = True\<rparr>)\<rparr>)
       newResponseWriter request0 world0
   \<and> auth_passes env0 request0
   \<and> uploadHandler env0 newResponseWriter request0 world0 =
       uploadHandler_rest sendToAssemblyAI env0 newResponseWriter request0
         (record_call (UserGet ''user_1'') world0)"
  using
    auth_prelude_same [of "env0\<lparr>user_Get := (\<lambda>subject. Inr \<lparr>ID = subject, Banned = True\<rparr>)\<rparr>"
      request0 newResponseWriter world0]
    auth_prelude_same [of env0 request0 newResponseWriter world0]
  by (simp add: auth_passes_def env0_def request0_def)

subsection \<open>The summarize route\<close>

text \<open>Every run of \<^verbatim>\<open>getAIResponse\<close> sends one request to the completion provider.\<close>

lemma getAIResponse_records_call:
  "\<exists>req. calls (snd (getAIResponse e prompt s)) = calls s @ [ChatCompletion req]"
  by (auto simp: getAIResponse_def json_Marshal_def http_NewRequest_def Do_def record_call_def
      Let_def split: sum.splits)

text \<open>
  C7. A summarize request whose decoded \<^verbatim>\<open>text\<close> field is empty (the field was empty or
  missing in the body): when the authentication lets it through, the handler answers
  status 400 with \<^verbatim>\<open>No transcript provided\<close> and returns, the lookup of the user being the
  only request made; and whatever the authentication state, no request goes to the
  completion provider, so \<^verbatim>\<open>getAIResponse\<close> has not run.
\<close>

theorem summarize_empty_text:
  assumes "Decode_Body r = Inr d" and "requestData_Text d = []"
  shows "(auth_passes e r \<longrightarrow>
            (\<exists>claims. ctx_SessionClaims r = Some claims
               \<and> handleSummaryRequest e newResponseWriter r s =
                   (Returned, error_response 400 ''No transcript provided'',
                    record_call (UserGet (Subject claims)) s)))
       \<and> \<not> list_ex is_ChatCompletion (new_calls s (snd (snd (handleSummaryRequest e w r s))))"
  using assms
  by (auto simp: auth_passes_def handleSummaryRequest_def handleSummaryRequest_rest_def
      Get_def record_call_def new_calls_def writer_defs status_defs Let_def
      split: option.splits sum.splits)

text \<open>C7, at the sample request with an empty text.\<close>

theorem summarize_empty_text_witness:
  "Decode_Body (request0\<lparr>Decode_Body := Inr \<lparr>requestData_Text = []\<rparr>\<rparr>)
     = Inr \<lparr>requestData_Text = []\<rparr>
   \<and> auth_passes env0 (request0\<lparr>Decode_Body := Inr \<lparr>requestData_Text = []\<rparr>\<rparr>)
   \<and> handleSummaryRequest env0 newResponseWriter
        (request0\<lparr>Decode_Body := Inr \<lparr>requestData_Text = []\<rparr>\<rparr>) world0 =
       (Returned, error_response 400 ''No transcript provided'',
        record_call (UserGet ''user_1'') world0)
   \<and> \<not> list_ex is_ChatCompletion (new_calls world0 (snd (snd (handleSummaryRequest env0
        newResponseWriter (request0\<lparr>Decode_Body := Inr \<lparr>requestData_Text = []\<rparr>\<rparr>) world0))))"
  using summarize_empty_text [of "request0\<lparr>Decode_Body := Inr \<lparr>requestData_Text = []\<rparr>\<rparr>"
      "\<lparr>requestData_Text = []\<rparr>" env0 world0 newResponseWriter]
  by (simp add: auth_passes_def env0_def request0_def new_calls_def record_call_def world0_def)

subsection \<open>The summarization client\<close>

lemma decimal_500: "decimal 500 = ''500''"
  by (simp add: decimal_def decimal_nat.simps [of 500] decimal_nat.simps [of 50]
      decimal_nat.simps [of 5] digit_def)

text \<open>
  On a status other than 200 the call fails with an error made of the status code and of
  what \<^verbatim>\<open>fmt\<close> prints for the body reader; the bytes of the body, which are not read, play
  no part in it.
\<close>

lemma getAIResponse_non200:
  assumes "client_Do e = (\<lambda>req. Inr resp)" and "StatusCode resp \<noteq> 200"
  shows "fst (getAIResponse e prompt s) =
     Inl (errorString (''unexpected status code: '' @ decimal (StatusCode resp) @ '', ''
            @ rendering (Body resp)))"
  using assms
  by (simp add: getAIResponse_def json_Marshal_def http_NewRequest_def Do_def Let_def
      status_defs)

lemma getAIResponse_body_unused:
  assumes "client_Do e = (\<lambda>req. Inr resp)" and "StatusCode resp \<noteq> 200"
  shows "fst (getAIResponse
            (e\<lparr>client_Do := (\<lambda>req. Inr (resp\<lparr>Body := (Body resp)\<lparr>unread := bytes\<rparr>\<rparr>))\<rparr>) prompt s)
         = fst (getAIResponse e prompt s)"
  using assms
  by (simp add: getAIResponse_def json_Marshal_def http_NewRequest_def Do_def Let_def
      status_defs)

text \<open>The two parts of the claim that hold: no choice, and the first choice.\<close>

lemma getAIResponse_no_choices:
  assumes "client_Do e = (\<lambda>req. Inr resp)" and "StatusCode resp = 200"
    and "read_error (Body resp) = None"
    and "json_Unmarshal e (unread (Body resp)) = Inr res" and "Choices res = []"
  shows "fst (getAIResponse e prompt s) = Inl (errorString ''no response from AI'')"
  using assms
  by (simp add: getAIResponse_def json_Marshal_def http_NewRequest_def Do_def Let_def
      status_defs ReadAll_def)

lemma getAIResponse_first_choice:
  assumes "client_Do e = (\<lambda>req. Inr resp)" and "StatusCode resp = 200"
    and "read_error (Body resp) = None"
    and "json_Unmarshal e (unread (Body resp)) = Inr res" and "Choices res = c # cs"
  shows "fst (getAIResponse e prompt s) = Inr (Content (Message c))"
  using assms
  by (simp add: getAIResponse_def json_Marshal_def http_NewRequest_def Do_def Let_def
      status_defs ReadAll_def)

text \<open>
  C8. Claim: a response with a status other than 200 makes the call fail with an error
  that embeds the status code and the response body. The source passes the reader
  \<^verbatim>\<open>resp.Body\<close> to the verb \<^verbatim>\<open>%s\<close> without reading it: for a response with status 500 and
  the body \<^verbatim>\<open>{"error":"rate limit"}\<close> the error holds the status code and the printed
  reader value, and nothing of the body.
\<close>

theorem getAIResponse_error_without_body:
  \<open>fst (getAIResponse
          (env0\<lparr>client_Do := (\<lambda>req. Inr \<lparr>StatusCode = 500,
             Body = \<lparr>unread = ''{"error":"rate limit"}'', read_error = None,
                     rendering = ''&{0xc00012a000}''\<rparr>\<rparr>)\<rparr>)
          ''prompt'' world0)
   = Inl (errorString ''unexpected status code: 500, &{0xc00012a000}'')\<close>
  by (simp add: getAIResponse_def json_Marshal_def http_NewRequest_def Do_def Let_def
      status_defs decimal_500)

subsection \<open>The transcribe route\<close>

lemma send_frame:
  assumes "send = sendToAssemblyAI \<or> send = sendToAssemblyAI_main_go
         \<or> send = sendToAssemblyAI_part_001"
  shows "disk (snd (send e n s)) = disk s" and "opened (snd (send e n s)) \<subseteq> opened s"
  using assms
  by (auto simp: send_defs world_defs Let_def split: sum.splits option.splits prod.splits if_splits)

lemma uploadHandler_rest_frame:
  assumes send: "send = sendToAssemblyAI \<or> send = sendToAssemblyAI_main_go
         \<or> send = sendToAssemblyAI_part_001"
    and form: "FormFile r ''uploadfile'' s = (Inr (file, hdr), s1)"
    and temp: "CreateTemp e '''' ''upload-*.tmp'' s1 = (Inr tempFile, s2)"
    and run: "uploadHandler_rest send e w r s = (out, w', s')"
  shows "fd tempFile \<notin> opened s' \<and> opened s' \<subseteq> opened s \<and> disk s' (Name tempFile) \<noteq> None"
proof -
  obtain res3 s3 where copy: "Copy e tempFile file s2 = (res3, s3)"
    by (cases "Copy e tempFile file s2")
  obtain res4 s4 where sent: "send e (Name tempFile) s3 = (res4, s4)"
    by (cases "send e (Name tempFile) s3")
  have d4: "disk s4 = disk s3" and o4: "opened s4 \<subseteq> opened s3"
    using send_frame [OF send, of e "Name tempFile" s3] sent by simp_all
  have o1: "opened s1 = insert (mfd file) (opened s)"
    using form by (auto simp: FormFile_def split: sum.splits prod.splits)
  have o2: "opened s2 = insert (fd tempFile) (opened s1)"
    and d2: "disk s2 (Name tempFile) \<noteq> None"
    using temp by (auto simp: CreateTemp_def split: sum.splits if_splits)
  have o3: "opened s3 = opened s2" and d3: "disk s3 (Name tempFile) \<noteq> None"
    using copy d2 by (auto simp: Copy_def split: option.splits)
  have final: "s' = Close (mfd file) (Close (fd tempFile) s3)
             \<or> s' = Close (mfd file) (Close (fd tempFile) s4)"
    using run form temp copy sent
    by (auto simp: uploadHandler_rest_def deferred_def Let_def
        split: sum.splits option.splits)
  then show ?thesis
    using o1 o2 o3 o4 d3 d4 by (auto simp: Close_def)
qed

lemma sample_upload_run:
  "FormFile request0 ''uploadfile'' (record_call (UserGet ''user_1'') world0) =
     (Inr (\<lparr>mfd = 3, content = ''RIFF0WAVE0''\<rparr>, \<lparr>Filename = ''a.wav'', Size = 10\<rparr>),
      \<lparr>disk = Map.empty, opened = {3}, next_fd = 4, calls = [UserGet ''user_1'']\<rparr>)"
  "CreateTemp env0 '''' ''upload-*.tmp'' \<lparr>disk = Map.empty, opened = {3}, next_fd = 4, calls = [UserGet ''user_1'']\<rparr> =
     (Inr \<lparr>fd = 4, Name = ''/tmp/upload-1.tmp''\<rparr>,
      \<lparr>disk = [''/tmp/upload-1.tmp'' \<mapsto> []], opened = {4, 3}, next_fd = 5,
       calls = [UserGet ''user_1'']\<rparr>)"
  by (simp_all add: world_defs env0_def request0_def world0_def)

lemma sample_upload_result:
  "uploadHandler env0 newResponseWriter request0 world0 =
     (Returned,
      Fprintln (WriteHeader newResponseWriter StatusOK)
        (''{'' @ [quote] @ ''status'' @ [quote] @ '': '' @ [quote] @ ''success'' @ [quote]
         @ '', '' @ [quote] @ ''transcript'' @ [quote] @ '': '' @ [quote] @ ''hello world''
         @ [quote] @ ''}''),
      \<lparr>disk = [''/tmp/upload-1.tmp'' \<mapsto> ''RIFF0WAVE0''], opened = {}, next_fd = 6,
       calls = [UserGet ''user_1'',
                TranscribeFromReader ''aai-key'' ''RIFF0WAVE0''
                  \<lparr>Punctuate = Some True, FormatText = Some True\<rparr>]\<rparr>)"
  by (simp add: handler_defs send_defs world_defs env0_def request0_def world0_def Let_def
      quote_def)

text \<open>
  C3. Claim: on every exit after the temporary file was created, the file is closed and
  removed from disk. No path of the handler removes it: after the sample upload has been
  answered, the file is on disk with the bytes of the upload, in the program with both
  routes and in \<^verbatim>\<open>src/main.go\<close>.
\<close>

theorem temp_file_left_on_disk:
  "fst (uploadHandler env0 newResponseWriter request0 world0) = Returned
   \<and> disk (snd (snd (uploadHandler env0 newResponseWriter request0 world0)))
         ''/tmp/upload-1.tmp'' = Some ''RIFF0WAVE0''
   \<and> fst (uploadHandler_main_go env0 newResponseWriter request0 world0) = Returned
   \<and> disk (snd (snd (uploadHandler_main_go env0 newResponseWriter request0 world0)))
         ''/tmp/upload-1.tmp'' = Some ''RIFF0WAVE0''"
  by (simp add: handler_defs send_defs world_defs env0_def request0_def world0_def Let_def)

text \<open>
  C3, amended. Once the temporary file has been created, however the handler ends (the
  copy fails, the transcription fails, the response is sent, or the handler panics), the
  handle on the temporary file is closed when it ends, no handle that it opened is left
  open, and the file is still on disk. This holds for the handler of the program with
  both routes, where the authentication has let the request through, and for the handler
  of \<^verbatim>\<open>src/main.go\<close>.
\<close>

theorem temp_file_closed:
  "(ctx_SessionClaims r = Some claims \<and> auth_passes e r
      \<and> FormFile r ''uploadfile'' (record_call (UserGet (Subject claims)) s)
            = (Inr (file, hdr), s1)
      \<and> CreateTemp e '''' ''upload-*.tmp'' s1 = (Inr tempFile, s2)
      \<and> uploadHandler e w r s = (out, w', s')
    \<longrightarrow> fd tempFile \<notin> opened s' \<and> opened s' \<subseteq> opened s \<and> disk s' (Name tempFile) \<noteq> None)
   \<and> (FormFile r ''uploadfile'' s = (Inr (file, hdr), s1)
      \<and> CreateTemp e '''' ''upload-*.tmp'' s1 = (Inr tempFile, s2)
      \<and> uploadHandler_main_go e w r s = (out, w', s')
    \<longrightarrow> fd tempFile \<notin> opened s' \<and> opened s' \<subseteq> opened s \<and> disk s' (Name tempFile) \<noteq> None)"
proof -
  have routes: "fd tempFile \<notin> opened s' \<and> opened s' \<subseteq> opened s \<and> disk s' (Name tempFile) \<noteq> None"
    if a: "ctx_SessionClaims r = Some claims \<and> auth_passes e r
      \<and> FormFile r ''uploadfile'' (record_call (UserGet (Subject claims)) s)
            = (Inr (file, hdr), s1)
      \<and> CreateTemp e '''' ''upload-*.tmp'' s1 = (Inr tempFile, s2)
      \<and> uploadHandler e w r s = (out, w', s')"
  proof -
    from a have "uploadHandler_rest sendToAssemblyAI e w r
        (record_call (UserGet (Subject claims)) s) = (out, w', s')"
      by (auto simp: uploadHandler_def auth_passes_def Get_def split: sum.splits)
    with a have "fd tempFile \<notin> opened s'
        \<and> opened s' \<subseteq> opened (record_call (UserGet (Subject claims)) s)
        \<and> disk s' (Name tempFile) \<noteq> None"
      using uploadHandler_rest_frame [of sendToAssemblyAI r
          "record_call (UserGet (Subject claims)) s" "file" hdr s1 e tempFile s2 w out w' s']
      by simp
    then show ?thesis
      by (simp add: record_call_def)
  qed
  have upload: "fd tempFile \<notin> opened s' \<and> opened s' \<subseteq> opened s \<and> disk s' (Name tempFile) \<noteq> None"
    if "FormFile r ''uploadfile'' s = (Inr (file, hdr), s1)
      \<and> CreateTemp e '''' ''upload-*.tmp'' s1 = (Inr tempFile, s2)
      \<and> uploadHandler_main_go e w r s = (out, w', s')"
    using that
      uploadHandler_rest_frame [of sendToAssemblyAI_main_go r s "file" hdr s1 e tempFile s2
        w out w' s']
    by (simp add: uploadHandler_main_go_def)
  show ?thesis
    using routes upload by blast
qed

text \<open>C3, amended, at the sample upload, whose temporary file has the handle 4.\<close>

theorem temp_file_closed_witness:
  "4 \<notin> opened (snd (snd (uploadHandler env0 newResponseWriter request0 world0)))
   \<and> opened (snd (snd (uploadHandler env0 newResponseWriter request0 world0))) \<subseteq> opened world0
   \<and> disk (snd (snd (uploadHandler env0 newResponseWriter request0 world0)))
        ''/tmp/upload-1.tmp'' \<noteq> None"
  using temp_file_closed [of request0 "\<lparr>Subject = ''user_1''\<rparr>" env0 world0
      "\<lparr>mfd = 3, content = ''RIFF0WAVE0''\<rparr>" "\<lparr>Filename = ''a.wav'', Size = 10\<rparr>"
      "\<lparr>disk = Map.empty, opened = {3}, next_fd = 4, calls = [UserGet ''user_1'']\<rparr>"
      "\<lparr>fd = 4, Name = ''/tmp/upload-1.tmp''\<rparr>"
      "\<lparr>disk = [''/tmp/upload-1.tmp'' \<mapsto> []], opened = {4, 3}, next_fd = 5,
        calls = [UserGet ''user_1'']\<rparr>"
      newResponseWriter
      "fst (uploadHandler env0 newResponseWriter request0 world0)"
      "fst (snd (uploadHandler env0 newResponseWriter request0 world0))"
      "snd (snd (uploadHandler env0 newResponseWriter request0 world0))"]
    sample_upload_run
  by (simp add: auth_passes_def) (simp add: env0_def request0_def)

lemma transcription_answers_record_call [simp]:
  "transcription_answers e r (record_call c s) params t = transcription_answers e r s params t"
  by (simp add: transcription_answers_def record_call_def split: sum.splits prod.splits)

lemma uploadHandler_rest_answer:
  assumes "transcription_answers e r s params t"
    and "send = sendToAssemblyAI \<and> params = \<lparr>Punctuate = Some True, FormatText = Some True\<rparr>
       \<or> send = sendToAssemblyAI_main_go \<and> params = \<lparr>Punctuate = None, FormatText = None\<rparr>
       \<or> send = sendToAssemblyAI_part_001 \<and> params = \<lparr>Punctuate = None, FormatText = None\<rparr>"
  shows \<open>fst (uploadHandler_rest send e w r s) =
           (case Text t of
              None \<Rightarrow> Panicked ''invalid memory address or nil pointer dereference''
            | Some text \<Rightarrow> Returned)\<close>
    and \<open>fst (snd (uploadHandler_rest send e w r s)) =
           (case Text t of
              None \<Rightarrow> w
            | Some text \<Rightarrow>
                Fprintln (WriteHeader w StatusOK)
                  (''{"status": "success", "transcript": "'' @ text @ ''"}''))\<close>
  using assms
  by (auto simp: transcription_answers_def uploadHandler_rest_def send_defs world_defs Let_def
      split: sum.splits option.splits prod.splits)

text \<open>
  C10. When the provider's answer has no text (\<^verbatim>\<open>Text\<close> is nil), the handler does not
  produce a response: the dereference on the success path panics, and the response
  writer is as the handler received it. This holds in the program with both routes, for a
  request that the authentication lets through, and in \<^verbatim>\<open>src/main.go\<close>.
\<close>

theorem nil_Text_panics:
  "(auth_passes e r
      \<and> transcription_answers e r s \<lparr>Punctuate = Some True, FormatText = Some True\<rparr> t
      \<and> Text t = None
    \<longrightarrow> fst (uploadHandler e w r s) =
          Panicked ''invalid memory address or nil pointer dereference''
        \<and> fst (snd (uploadHandler e w r s)) = w)
   \<and> (transcription_answers e r s \<lparr>Punctuate = None, FormatText = None\<rparr> t
      \<and> Text t = None
    \<longrightarrow> fst (uploadHandler_main_go e w r s) =
          Panicked ''invalid memory address or nil pointer dereference''
        \<and> fst (snd (uploadHandler_main_go e w r s)) = w)"
proof -
  have routes: "fst (uploadHandler e w r s) =
          Panicked ''invalid memory address or nil pointer dereference''
        \<and> fst (snd (uploadHandler e w r s)) = w"
    if a: "auth_passes e r
      \<and> transcription_answers e r s \<lparr>Punctuate = Some True, FormatText = Some True\<rparr> t
      \<and> Text t = None"
  proof -
    from a obtain claims :: SessionClaims where
      "uploadHandler e w r s =
         uploadHandler_rest sendToAssemblyAI e w r (record_call (UserGet (Subject claims)) s)"
      by (auto simp: auth_passes_def uploadHandler_def Get_def split: option.splits sum.splits)
    then show ?thesis
      using a
        uploadHandler_rest_answer [of e r "record_call (UserGet (Subject claims)) s"
          "\<lparr>Punctuate = Some True, FormatText = Some True\<rparr>" t sendToAssemblyAI w]
      by simp
  qed
  have upload: "fst (uploadHandler_main_go e w r s) =
          Panicked ''invalid memory address or nil pointer dereference''
        \<and> fst (snd (uploadHandler_main_go e w r s)) = w"
    if a: "transcription_answers e r s \<lparr>Punctuate = None, FormatText = None\<rparr> t
      \<and> Text t = None"
    using a
      uploadHandler_rest_answer [of e r s "\<lparr>Punctuate = None, FormatText = None\<rparr>" t
        sendToAssemblyAI_main_go w]
    by (simp add: uploadHandler_main_go_def)
  show ?thesis
    using routes upload by blast
qed

text \<open>C10, at the sample upload with a provider that answers without a text.\<close>

theorem nil_Text_panics_witness:
  "auth_passes (env0\<lparr>Transcribe_result := (\<lambda>bytes params. Inr \<lparr>Text = None\<rparr>)\<rparr>) request0
   \<and> transcription_answers (env0\<lparr>Transcribe_result := (\<lambda>bytes params. Inr \<lparr>Text = None\<rparr>)\<rparr>)
        request0 world0 \<lparr>Punctuate = Some True, FormatText = Some True\<rparr> \<lparr>Text = None\<rparr>
   \<and> fst (uploadHandler (env0\<lparr>Transcribe_result := (\<lambda>bytes params. Inr \<lparr>Text = None\<rparr>)\<rparr>)
          newResponseWriter request0 world0)
       = Panicked ''invalid memory address or nil pointer dereference''
   \<and> fst (snd (uploadHandler (env0\<lparr>Transcribe_result := (\<lambda>bytes params. Inr \<lparr>Text = None\<rparr>)\<rparr>)
          newResponseWriter request0 world0))
       = newResponseWriter
   \<and> fst (uploadHandler_main_go (env0\<lparr>Transcribe_result := (\<lambda>bytes params. Inr \<lparr>Text = None\<rparr>)\<rparr>)
          newResponseWriter request0 world0)
       = Panicked ''invalid memory address or nil pointer dereference''"
  using
    nil_Text_panics [of "env0\<lparr>Transcribe_result := (\<lambda>bytes params. Inr \<lparr>Text = None\<rparr>)\<rparr>"
      request0 world0 "\<lparr>Text = None\<rparr>" newResponseWriter]
  by (simp add: auth_passes_def transcription_answers_def env0_def request0_def world0_def)

text \<open>
  A text made of bytes that stand for themselves in a JSON string literal is read back
  from the success body as it was sent.
\<close>

lemma json_read_string_plain:
  "list_all json_plain v \<Longrightarrow> json_read_string (v @ quote # rest) = Some (v, rest)"
proof (induction v)
  case Nil
  show ?case by (cases rest) simp_all
next
  case (Cons c v)
  then have c: "c \<noteq> quote" "c \<noteq> backslash" "\<not> is_control c"
    and ih: "json_read_string (v @ quote # rest) = Some (v, rest)"
    by (simp_all add: json_plain_def)
  obtain d ds where "v @ quote # rest = d # ds"
    by (cases "v @ quote # rest") simp_all
  then show ?case
    using c ih by simp
qed

lemma transcript_field_plain:
  \<open>list_all json_plain text \<Longrightarrow>
   transcript_field (''{"status": "success", "transcript": "'' @ text @ ''"}'' @ [newline])
     = Some text\<close>
  using json_read_string_plain [of "text" "''}'' @ [newline]"]
  by (simp add: transcript_field_def quote_def)

lemma upload_success_response:
  assumes "auth_passes e r"
    and "transcription_answers e r s \<lparr>Punctuate = Some True, FormatText = Some True\<rparr> t"
    and "Text t = Some text"
  shows \<open>fst (uploadHandler e newResponseWriter r s) = Returned\<close>
    and \<open>fst (snd (uploadHandler e newResponseWriter r s)) =
           responded 200 (''{"status": "success", "transcript": "'' @ text @ ''"}'' @ [newline])\<close>
proof -
  from assms(1) obtain claims :: SessionClaims where
    "uploadHandler e newResponseWriter r s =
       uploadHandler_rest sendToAssemblyAI e newResponseWriter r
         (record_call (UserGet (Subject claims)) s)"
    by (auto simp: auth_passes_def uploadHandler_def Get_def split: option.splits sum.splits)
  then show \<open>fst (uploadHandler e newResponseWriter r s) = Returned\<close>
    and \<open>fst (snd (uploadHandler e newResponseWriter r s)) =
           responded 200 (''{"status": "success", "transcript": "'' @ text @ ''"}'' @ [newline])\<close>
    using assms
      uploadHandler_rest_answer [of e r "record_call (UserGet (Subject claims)) s"
        "\<lparr>Punctuate = Some True, FormatText = Some True\<rparr>" t sendToAssemblyAI newResponseWriter]
    by (simp_all add: writer_defs status_defs)
qed

lemma upload_transcript_field_plain:
  assumes "auth_passes e r"
    and "transcription_answers e r s \<lparr>Punctuate = Some True, FormatText = Some True\<rparr> t"
    and "Text t = Some text" and "list_all json_plain text"
  shows "transcript_field (body (fst (snd (uploadHandler e newResponseWriter r s)))) = Some text"
  using upload_success_response(2) [OF assms(1-3)] transcript_field_plain [OF assms(4)]
  by (simp add: responded_def)

text \<open>
  C5. Claim: for every transcript text of the provider, the response is status 200 with a
  \<^verbatim>\<open>transcript\<close> field equal to that text. The handler puts the text between two quotes
  as it is, where the summarize route sanitizes first: for the text \<^verbatim>\<open>say "hi"\<close> on an
  authenticated, well-formed upload the response is status 200 with the body
  \<^verbatim>\<open>{"status": "success", "transcript": "say "hi""}\<close>, in which the string literal ends
  after \<^verbatim>\<open>say \<close> and no \<^verbatim>\<open>transcript\<close> field equal to the text can be read.
\<close>

theorem transcript_with_quote:
  \<open>auth_passes env_quoted request0
   \<and> transcription_answers env_quoted request0 world0
        \<lparr>Punctuate = Some True, FormatText = Some True\<rparr> \<lparr>Text = Some ''say "hi"''\<rparr>
   \<and> fst (uploadHandler env_quoted newResponseWriter request0 world0) = Returned
   \<and> fst (snd (uploadHandler env_quoted newResponseWriter request0 world0)) =
       responded 200 (''{"status": "success", "transcript": "say "hi""}'' @ [newline])
   \<and> transcript_field
        (body (fst (snd (uploadHandler env_quoted newResponseWriter request0 world0)))) = None
   \<and> json_read_string ''say "hi""}'' = Some (''say '', ''hi""}'')\<close>
proof -
  have a: "auth_passes env_quoted request0"
    by (simp add: auth_passes_def env_quoted_def env0_def request0_def)
  have t: \<open>transcription_answers env_quoted request0 world0
        \<lparr>Punctuate = Some True, FormatText = Some True\<rparr> \<lparr>Text = Some ''say "hi"''\<rparr>\<close>
    by (simp add: transcription_answers_def env_quoted_def env0_def request0_def world0_def)
  have r: \<open>json_read_string ''say "hi""}'' = Some (''say '', ''hi""}'')\<close>
    by (simp add: byte_defs is_control_def)
  have f: \<open>transcript_field (''{"status": "success", "transcript": "say "hi""}'' @ [newline])
      = None\<close>
    by (simp add: transcript_field_def byte_defs is_control_def)
  show ?thesis
    using a t r f upload_success_response [OF a t]
    by (simp add: responded_def)
qed

lemma send_calls:
  "calls (snd (sendToAssemblyAI e n s)) = calls s
   \<or> (\<exists>key bytes. calls (snd (sendToAssemblyAI e n s)) =
        calls s @ [TranscribeFromReader key bytes \<lparr>Punctuate = Some True, FormatText = Some True\<rparr>])"
  "calls (snd (sendToAssemblyAI_main_go e n s)) = calls s
   \<or> (\<exists>key bytes. calls (snd (sendToAssemblyAI_main_go e n s)) =
        calls s @ [TranscribeFromReader key bytes \<lparr>Punctuate = None, FormatText = None\<rparr>])"
  "calls (snd (sendToAssemblyAI_part_001 e n s)) = calls s
   \<or> (\<exists>key bytes. calls (snd (sendToAssemblyAI_part_001 e n s)) =
        calls s @ [TranscribeFromReader key bytes \<lparr>Punctuate = None, FormatText = None\<rparr>])"
  by (auto simp: send_defs world_defs Let_def split: sum.splits option.splits prod.splits)

lemma uploadHandler_rest_calls:
  "calls (snd (snd (uploadHandler_rest send e w r s))) = calls s
   \<or> (\<exists>n s3. calls s3 = calls s
        \<and> calls (snd (snd (uploadHandler_rest send e w r s))) = calls (snd (send e n s3)))"
proof -
  obtain res1 s1 where form: "FormFile r ''uploadfile'' s = (res1, s1)"
    by (cases "FormFile r ''uploadfile'' s")
  then have c1: "calls s1 = calls s"
    by (auto simp: FormFile_def split: sum.splits prod.splits)
  show ?thesis
  proof (cases res1)
    case (Inl err)
    then show ?thesis
      using form c1 by (simp add: uploadHandler_rest_def)
  next
    case (Inr opened_part)
    obtain part hdr where part: "opened_part = (part, hdr)"
      by (cases opened_part)
    obtain res2 s2 where temp: "CreateTemp e '''' ''upload-*.tmp'' s1 = (res2, s2)"
      by (cases "CreateTemp e '''' ''upload-*.tmp'' s1")
    then have c2: "calls s2 = calls s"
      using c1 by (auto simp: CreateTemp_def split: sum.splits if_splits)
    show ?thesis
    proof (cases res2)
      case (Inl err)
      then show ?thesis
        using form Inr part temp c2 by (simp add: uploadHandler_rest_def deferred_def Close_def)
    next
      case created: (Inr tempFile)
      obtain res3 s3 where copy: "Copy e tempFile part s2 = (res3, s3)"
        by (cases "Copy e tempFile part s2")
      then have c3: "calls s3 = calls s"
        using c2 by (auto simp: Copy_def split: option.splits)
      show ?thesis
      proof (cases res3)
        case (Inl err)
        then show ?thesis
          using form Inr part temp created copy c3
          by (simp add: uploadHandler_rest_def deferred_def Close_def)
      next
        case copied: (Inr written)
        have "calls (snd (snd (uploadHandler_rest send e w r s)))
            = calls (snd (send e (Name tempFile) s3))"
          using form Inr part temp created copy copied
          by (cases "send e (Name tempFile) s3")
             (simp add: uploadHandler_rest_def deferred_def Close_def Let_def
               split: sum.splits option.splits)
        then show ?thesis
          using c3 by blast
      qed
    qed
  qed
qed

text \<open>
  C6. Claim: every transcription request is sent with punctuation and text formatting
  enabled. The two earlier variants send an empty options struct: in the sample upload
  the one transcription request of \<^verbatim>\<open>src/main.go\<close> and of \<^verbatim>\<open>src/unnamed/part_001\<close> (there
  after the lookup of the user) has both options unset.
\<close>

theorem options_unset_in_earlier_variants:
  "map transcribe_options
     (new_calls world0 (snd (snd (uploadHandler_main_go env0 newResponseWriter request0 world0))))
   = [Some \<lparr>Punctuate = None, FormatText = None\<rparr>]
   \<and> map transcribe_options
     (new_calls world0 (snd (snd (uploadHandler_part_001 env0 newResponseWriter request0 world0))))
   = [None, Some \<lparr>Punctuate = None, FormatText = None\<rparr>]"
  by (simp add: handler_defs send_defs world_defs new_calls_def env0_def request0_def world0_def
      Let_def)

text \<open>
  C6, amended. Every transcription request that the transcribe handler of the program
  with both routes makes has punctuation and text formatting enabled; every one that the
  handlers of \<^verbatim>\<open>src/main.go\<close> and \<^verbatim>\<open>src/unnamed/part_001\<close> make has both options unset.
\<close>

theorem transcription_options:
  "(\<forall>c \<in> set (new_calls s (snd (snd (uploadHandler e w r s)))).
      \<forall>p. transcribe_options c = Some p \<longrightarrow>
        Punctuate p = Some True \<and> FormatText p = Some True)
   \<and> (\<forall>c \<in> set (new_calls s (snd (snd (uploadHandler_main_go e w r s)))).
      \<forall>p. transcribe_options c = Some p \<longrightarrow> Punctuate p = None \<and> FormatText p = None)
   \<and> (\<forall>c \<in> set (new_calls s (snd (snd (uploadHandler_part_001 e w r s)))).
      \<forall>p. transcribe_options c = Some p \<longrightarrow> Punctuate p = None \<and> FormatText p = None)"
proof -
  have rest: "\<forall>c \<in> set (new_calls s (snd (snd (uploadHandler_rest send e w r s1)))).
      \<forall>p. transcribe_options c = Some p \<longrightarrow> p = params"
    if send: "\<And>n s3. calls (snd (send e n s3)) = calls s3
         \<or> (\<exists>key bytes. calls (snd (send e n s3)) =
               calls s3 @ [TranscribeFromReader key bytes params])"
      and s1: "calls s1 = calls s \<or> (\<exists>subject. calls s1 = calls s @ [UserGet subject])"
    for send s1 params
  proof -
    have "calls (snd (snd (uploadHandler_rest send e w r s1))) = calls s1
        \<or> (\<exists>key bytes. calls (snd (snd (uploadHandler_rest send e w r s1))) =
              calls s1 @ [TranscribeFromReader key bytes params])"
      using uploadHandler_rest_calls [of send e w r s1] send by metis
    then show ?thesis
      using s1 by (auto simp: new_calls_def)
  qed
  have prelude: "\<forall>c \<in> set (new_calls s (snd (snd (h e w r s)))).
      \<forall>p. transcribe_options c = Some p \<longrightarrow> p = params"
    if h: "h = uploadHandler \<and> send = sendToAssemblyAI
         \<or> h = uploadHandler_part_001 \<and> send = sendToAssemblyAI_part_001"
      and send: "\<And>n s3. calls (snd (send e n s3)) = calls s3
         \<or> (\<exists>key bytes. calls (snd (send e n s3)) =
               calls s3 @ [TranscribeFromReader key bytes params])"
    for h send params
  proof (cases "ctx_SessionClaims r")
    case None
    then show ?thesis
      using h by (auto simp: uploadHandler_def uploadHandler_part_001_def new_calls_def)
  next
    case (Some claims)
    show ?thesis
    proof (cases "user_Get e (Subject claims)")
      case (Inl err)
      then show ?thesis
        using h Some
        by (auto simp: uploadHandler_def uploadHandler_part_001_def new_calls_def Get_def
            record_call_def)
    next
      case (Inr usr)
      show ?thesis
      proof (cases "Banned usr")
        case True
        then show ?thesis
          using h Some Inr
          by (auto simp: uploadHandler_def uploadHandler_part_001_def new_calls_def Get_def
              record_call_def)
      next
        case False
        then have "h e w r s =
            uploadHandler_rest send e w r (record_call (UserGet (Subject claims)) s)"
          using h Some Inr
          by (auto simp: uploadHandler_def uploadHandler_part_001_def Get_def)
        then show ?thesis
          using rest [of send params "record_call (UserGet (Subject claims)) s"] send
          by (simp add: record_call_def)
      qed
    qed
  qed
  have one: "\<forall>c \<in> set (new_calls s (snd (snd (uploadHandler e w r s)))).
      \<forall>p. transcribe_options c = Some p \<longrightarrow>
        p = \<lparr>Punctuate = Some True, FormatText = Some True\<rparr>"
    using prelude [of uploadHandler sendToAssemblyAI
        "\<lparr>Punctuate = Some True, FormatText = Some True\<rparr>"]
      send_calls(1) [of e]
    by simp
  have two: "\<forall>c \<in> set (new_calls s (snd (snd (uploadHandler_main_go e w r s)))).
      \<forall>p. transcribe_options c = Some p \<longrightarrow> p = \<lparr>Punctuate = None, FormatText = None\<rparr>"
    using rest [of sendToAssemblyAI_main_go "\<lparr>Punctuate = None, FormatText = None\<rparr>" s]
      send_calls(2) [of e]
    by (simp add: uploadHandler_main_go_def)
  have three: "\<forall>c \<in> set (new_calls s (snd (snd (uploadHandler_part_001 e w r s)))).
      \<forall>p. transcribe_options c = Some p \<longrightarrow> p = \<lparr>Punctuate = None, FormatText = None\<rparr>"
    using prelude [of uploadHandler_part_001 sendToAssemblyAI_part_001
        "\<lparr>Punctuate = None, FormatText = None\<rparr>"]
      send_calls(3) [of e]
    by simp
  show ?thesis
    using one two three by fastforce
qed

text \<open>C6, amended, at the sample upload: the request that is sent, and its options.\<close>

theorem transcription_options_witness:
  "TranscribeFromReader ''aai-key'' ''RIFF0WAVE0'' \<lparr>Punctuate = Some True, FormatText = Some True\<rparr>
     \<in> set (new_calls world0 (snd (snd (uploadHandler env0 newResponseWriter request0 world0))))
   \<and> transcribe_options (TranscribeFromReader ''aai-key'' ''RIFF0WAVE0''
        \<lparr>Punctuate = Some True, FormatText = Some True\<rparr>)
      = Some \<lparr>Punctuate = Some True, FormatText = Some True\<rparr>
   \<and> Punctuate \<lparr>Punctuate = Some True, FormatText = Some True\<rparr> = Some True
   \<and> FormatText \<lparr>Punctuate = Some True, FormatText = Some True\<rparr> = Some True"
  using transcription_options [of world0 env0 newResponseWriter request0] sample_upload_result
  by (simp add: new_calls_def world0_def)

end
